theory Spec2Isabelle
  imports Complex_Main "HOL-Library.Char_ord" "HOL-Library.List_Lexorder"
begin

section \<open>Data model\<close>

text \<open>
  The module \<^verbatim>\<open>Lab_2_4_LR2.py\<close> holds the class \<^verbatim>\<open>LinearRegressor\<close> and the two
  functions \<^verbatim>\<open>evaluate_regression\<close> and \<^verbatim>\<open>one_hot_encode\<close>. Array entries are reals. In the
  estimator the arithmetic is exact, with the special values that numpy produces from a
  division by zero. In \<^verbatim>\<open>evaluate_regression\<close> the arithmetic is that of 64-bit floats:
  every operation rounds its result, and the rounding is a parameter of the model.

  Every exception of the source is a value of \<open>error\<close>. The source raises Python's
  \<^verbatim>\<open>ValueError\<close> itself in two places, and numpy raises it in the others:
  \<^item> \<open>InvalidArgument m\<close>: \<^verbatim>\<open>ValueError("Method m not available ...")\<close> of \<^verbatim>\<open>fit\<close>;
  \<^item> \<open>NotFitted\<close>: \<^verbatim>\<open>ValueError("Model is not yet fitted")\<close> of \<^verbatim>\<open>predict\<close>;
  \<^item> \<open>ShapeMismatch\<close>: numpy's \<^verbatim>\<open>ValueError\<close> for operands that \<^verbatim>\<open>dot\<close> cannot align or
    that cannot be broadcast together;
  \<^item> \<open>CastError\<close>: numpy's \<^verbatim>\<open>ValueError\<close> of \<^verbatim>\<open>astype(float)\<close> on an entry that is no number;
  \<^item> \<open>EmptyStack\<close>: numpy's \<^verbatim>\<open>ValueError\<close> of \<^verbatim>\<open>column_stack\<close> on an empty list;
  \<^item> \<open>IndexError\<close>, \<open>ZeroDivisionError\<close>, \<open>UnboundLocalError\<close>: Python's own.
\<close>

datatype error =
    InvalidArgument string
  | NotFitted
  | ShapeMismatch
  | CastError
  | EmptyStack
  | IndexError
  | ZeroDivisionError
  | UnboundLocalError

text \<open>A numpy scalar that may be one of the special values of a division by zero.\<close>

datatype npfloat = Num real | PosInf | NegInf | NaN

text \<open>
  A 2D array keeps its column count beside its rows, so that an array with no rows still
  has a shape; a well-formed one has every row of that length.
\<close>

datatype 'a matrix = Matrix (ncols: nat) (rows: "'a list list")

definition nrows :: "'a matrix \<Rightarrow> nat" where
  "nrows X = length (rows X)"

definition wf_matrix :: "'a matrix \<Rightarrow> bool" where
  "wf_matrix X = list_all (\<lambda>r. length r = ncols X) (rows X)"

text \<open>The argument \<^verbatim>\<open>X\<close> of \<^verbatim>\<open>fit\<close> and \<^verbatim>\<open>predict\<close>: \<^verbatim>\<open>np.ndim(X)\<close> is 1 or 2.\<close>

datatype ndarray = Arr1 "real list" | Arr2 "real matrix"

text \<open>The two attributes of a \<^verbatim>\<open>LinearRegressor\<close>; \<open>None\<close> is Python's \<^verbatim>\<open>None\<close>.\<close>

record LinearRegressor =
  coefficients :: "real list option"
  intercept :: "real option"

definition init :: LinearRegressor where
  "init = \<lparr>coefficients = None, intercept = None\<rparr>"

section \<open>The numpy operations the module calls\<close>

definition column :: "'a matrix \<Rightarrow> nat \<Rightarrow> 'a list" where
  \<comment> \<open>\<^verbatim>\<open>X[:, i]\<close>\<close>
  "column X i = map (\<lambda>r. r ! i) (rows X)"

definition np_T :: "'a matrix \<Rightarrow> 'a matrix" where
  \<comment> \<open>\<^verbatim>\<open>X.T\<close>\<close>
  "np_T X = Matrix (nrows X) (map (column X) [0..<ncols X])"

definition c_ones :: "real matrix \<Rightarrow> real matrix" where
  \<comment> \<open>\<^verbatim>\<open>np.c_[np.ones((X.shape[0], 1)), X]\<close>\<close>
  "c_ones X = Matrix (Suc (ncols X)) (map (\<lambda>r. 1 # r) (rows X))"

definition reshape_col :: "real list \<Rightarrow> real matrix" where
  \<comment> \<open>\<^verbatim>\<open>X.reshape(-1, 1)\<close> of a 1D array\<close>
  "reshape_col xs = Matrix 1 (map (\<lambda>x. [x]) xs)"

definition inner :: "real list \<Rightarrow> real list \<Rightarrow> real" where
  "inner xs ys = sum_list (map2 (*) xs ys)"

definition dot_mm :: "real matrix \<Rightarrow> real matrix \<Rightarrow> error + real matrix" where
  \<comment> \<open>\<^verbatim>\<open>A.dot(B)\<close>, both 2D\<close>
  "dot_mm A B =
     (if ncols A \<noteq> nrows B then Inl ShapeMismatch
      else Inr (Matrix (ncols B)
                 (map (\<lambda>r. map (\<lambda>j. inner r (column B j)) [0..<ncols B]) (rows A))))"

definition dot_mv :: "real matrix \<Rightarrow> real list \<Rightarrow> error + real list" where
  \<comment> \<open>\<^verbatim>\<open>A.dot(v)\<close>, a 2D array and a 1D array\<close>
  "dot_mv A v =
     (if ncols A \<noteq> length v then Inl ShapeMismatch
      else Inr (map (\<lambda>r. inner r v) (rows A)))"

definition np_sub :: "real list \<Rightarrow> real list \<Rightarrow> error + real list" where
  \<comment> \<open>\<^verbatim>\<open>a - b\<close> of two 1D arrays: an array of length 1 is broadcast\<close>
  "np_sub a b =
     (if length a = length b then Inr (map2 (-) a b)
      else if length b = 1 then Inr (map (\<lambda>x. x - hd b) a)
      else if length a = 1 then Inr (map (\<lambda>x. hd a - x) b)
      else Inl ShapeMismatch)"

definition np_div :: "real \<Rightarrow> real \<Rightarrow> npfloat" where
  \<comment> \<open>division of numpy scalars: a zero divisor gives a special value and a warning\<close>
  "np_div a b =
     (if b = 0 then (if a = 0 then NaN else if 0 < a then PosInf else NegInf)
      else Num (a / b))"

definition np_mean :: "real list \<Rightarrow> npfloat" where
  \<comment> \<open>\<^verbatim>\<open>np.mean\<close>: the sum over the length, so \<open>NaN\<close> for the empty array\<close>
  "np_mean xs = np_div (sum_list xs) (real (length xs))"

definition np_unique :: "'a::linorder list \<Rightarrow> 'a list" where
  \<comment> \<open>\<^verbatim>\<open>np.unique\<close>: sort, then keep one of each run of equal entries\<close>
  "np_unique xs = remdups_adj (sort xs)"

definition astype_float :: "('a \<Rightarrow> real option) \<Rightarrow> 'a list \<Rightarrow> error + real list" where
  \<comment> \<open>\<^verbatim>\<open>col.astype(float)\<close>; the conversion of one entry is the parameter \<open>cast\<close>\<close>
  "astype_float cast col =
     (case those (map cast col) of None \<Rightarrow> Inl CastError | Some ys \<Rightarrow> Inr ys)"

definition column_stack :: "real list list \<Rightarrow> error + real matrix" where
  \<comment> \<open>\<^verbatim>\<open>np.column_stack\<close> of 1D arrays\<close>
  "column_stack cols =
     (case cols of
        [] \<Rightarrow> Inl EmptyStack
      | c # _ \<Rightarrow>
          if list_all (\<lambda>d. length d = length c) cols
          then Inr (Matrix (length cols) (map (\<lambda>r. map (\<lambda>d. d ! r) cols) [0..<length c]))
          else Inl ShapeMismatch)"

section \<open>LinearRegressor\<close>

definition predict :: "LinearRegressor \<Rightarrow> ndarray \<Rightarrow> error + real list" where
  "predict self X =
     (if coefficients self = None \<or> intercept self = None then Inl NotFitted
      else
        (case X of
           Arr1 xs \<Rightarrow>
             (case the (coefficients self) of
                [] \<Rightarrow> Inl IndexError
              | c0 # _ \<Rightarrow> Inr (map (\<lambda>x. the (intercept self) + c0 * x) xs))
         | Arr2 M \<Rightarrow>
             dot_mv (c_ones M) (the (intercept self) # the (coefficients self))))"

text \<open>
  The methods that assign to \<^verbatim>\<open>self\<close> return the outcome of the call together with the
  object as the call leaves it, also when the call raises. \<open>pinv\<close> is \<^verbatim>\<open>np.linalg.pinv\<close>.
\<close>

definition fit_multiple ::
  "(real matrix \<Rightarrow> real matrix) \<Rightarrow> LinearRegressor \<Rightarrow> real matrix \<Rightarrow> real list
    \<Rightarrow> (error + unit) \<times> LinearRegressor" where
  "fit_multiple pinv self X y =
     (let X_b = c_ones X in
      case dot_mm (np_T X_b) X_b of Inl e \<Rightarrow> (Inl e, self) | Inr G \<Rightarrow>
      case dot_mm (pinv G) (np_T X_b) of Inl e \<Rightarrow> (Inl e, self) | Inr P \<Rightarrow>
      case dot_mv P y of Inl e \<Rightarrow> (Inl e, self) | Inr theta_best \<Rightarrow>
      case theta_best of
        [] \<Rightarrow> (Inl IndexError, self)
      | t0 # ts \<Rightarrow> (Inr (), self\<lparr>intercept := Some t0, coefficients := Some ts\<rparr>))"

text \<open>
  The local variables of \<^verbatim>\<open>fit_gradient_descent\<close>: the object, the two lists of
  \<^verbatim>\<open>history\<close>, and \<^verbatim>\<open>training_history\<close> (its lists \<^verbatim>\<open>"epoch"\<close> and \<^verbatim>\<open>"mse"\<close>), which is
  unbound (\<open>None\<close>) until epoch 0 binds it.
\<close>

record gd_locals =
  self :: LinearRegressor
  history_intercept :: "real list"
  history_coefficients :: "real list list"
  training_history :: "(nat list \<times> npfloat list) option"

text \<open>One pass of the body of the \<^verbatim>\<open>for epoch in range(iterations)\<close> loop.\<close>

definition gd_epoch ::
  "real matrix \<Rightarrow> real list \<Rightarrow> real \<Rightarrow> nat \<Rightarrow> gd_locals \<Rightarrow> error option \<times> gd_locals" where
  "gd_epoch X y learning_rate epoch s =
     (case predict (self s) (Arr2 X) of Inl e \<Rightarrow> (Some e, s) | Inr predictions \<Rightarrow>
      case np_sub predictions y of Inl e \<Rightarrow> (Some e, s) | Inr err \<Rightarrow>
      if nrows X = 0 then (Some ZeroDivisionError, s) else
      case dot_mv (np_T X) err of Inl e \<Rightarrow> (Some e, s) | Inr xte \<Rightarrow>
      let gradient_coefficients = map ((*) (2 * learning_rate / real (nrows X))) xte;
          gradient_intercept = (2 * learning_rate / real (nrows X)) * sum_list err;
          intercept' = the (intercept (self s)) - gradient_intercept;
          coefficients' = map2 (-) (the (coefficients (self s))) gradient_coefficients;
          s1 = s\<lparr>self := (self s)\<lparr>intercept := Some intercept', coefficients := Some coefficients'\<rparr>,
                 history_intercept := history_intercept s @ [intercept'],
                 history_coefficients := history_coefficients s @ [coefficients']\<rparr>
      in if epoch mod 10 = 0 then
           (let mse = np_mean (map (\<lambda>e. e ^ 2) err) in
            case (if epoch = 0 then Some ([], []) else training_history s1) of
              None \<Rightarrow> (Some UnboundLocalError, s1)
            | Some (es, ms) \<Rightarrow> (None, s1\<lparr>training_history := Some (es @ [epoch], ms @ [mse])\<rparr>))
         else (None, s1))"

fun gd_loop ::
  "real matrix \<Rightarrow> real list \<Rightarrow> real \<Rightarrow> nat list \<Rightarrow> gd_locals \<Rightarrow> error option \<times> gd_locals" where
  "gd_loop X y learning_rate [] s = (None, s)"
| "gd_loop X y learning_rate (epoch # epochs) s =
     (case gd_epoch X y learning_rate epoch s of
        (Some e, s') \<Rightarrow> (Some e, s')
      | (None, s') \<Rightarrow> gd_loop X y learning_rate epochs s')"

text \<open>
  The whole body of \<^verbatim>\<open>fit_gradient_descent\<close>, with its local variables as the call leaves
  them. \<open>rand\<close> is the sequence of draws of \<^verbatim>\<open>np.random.rand\<close>: \<open>n\<close> draws for the
  coefficients, then one for the intercept. After the loop the source only plots; of
  that, what can raise is kept: the read of \<^verbatim>\<open>training_history\<close> and of
  \<^verbatim>\<open>history["coefficients"][0]\<close>.
\<close>

definition gd_run ::
  "(nat \<Rightarrow> real) \<Rightarrow> LinearRegressor \<Rightarrow> real matrix \<Rightarrow> real list \<Rightarrow> real \<Rightarrow> int
    \<Rightarrow> error option \<times> gd_locals" where
  "gd_run rand self0 X y learning_rate iterations =
     (let n = ncols X;
          s0 = \<lparr>self = self0\<lparr>coefficients := Some (map (\<lambda>j. rand j * 0.01) [0..<n]),
                             intercept := Some (rand n * 0.01)\<rparr>,
                history_intercept = [], history_coefficients = [],
                training_history = None\<rparr>
      in case gd_loop X y learning_rate [0..<nat iterations] s0 of
           (Some e, s) \<Rightarrow> (Some e, s)
         | (None, s) \<Rightarrow>
             (case training_history s of
                None \<Rightarrow> (Some UnboundLocalError, s)
              | Some _ \<Rightarrow>
                  (case history_coefficients s of
                     [] \<Rightarrow> (Some IndexError, s)
                   | _ # _ \<Rightarrow> (None, s))))"

text \<open>What the caller of \<^verbatim>\<open>fit_gradient_descent\<close> gets: \<^verbatim>\<open>None\<close> or the exception, and the object.\<close>

definition fit_gradient_descent ::
  "(nat \<Rightarrow> real) \<Rightarrow> LinearRegressor \<Rightarrow> real matrix \<Rightarrow> real list \<Rightarrow> real \<Rightarrow> int
    \<Rightarrow> (error + unit) \<times> LinearRegressor" where
  "fit_gradient_descent rand self0 X y learning_rate iterations =
     (case gd_run rand self0 X y learning_rate iterations of
        (Some e, s) \<Rightarrow> (Inl e, self s)
      | (None, s) \<Rightarrow> (Inr (), self s))"

definition as_2d :: "ndarray \<Rightarrow> real matrix" where
  \<comment> \<open>\<^verbatim>\<open>if np.ndim(X) == 1: X = X.reshape(-1, 1)\<close>\<close>
  "as_2d X = (case X of Arr1 xs \<Rightarrow> reshape_col xs | Arr2 M \<Rightarrow> M)"

definition fit ::
  "(real matrix \<Rightarrow> real matrix) \<Rightarrow> (nat \<Rightarrow> real) \<Rightarrow> LinearRegressor \<Rightarrow> ndarray \<Rightarrow> real list
    \<Rightarrow> string \<Rightarrow> real \<Rightarrow> int \<Rightarrow> (error + unit) \<times> LinearRegressor" where
  "fit pinv rand self0 X y method learning_rate iterations =
     (if method \<notin> set [''least_squares'', ''gradient_descent'']
      then (Inl (InvalidArgument method), self0)
      else
        (let X2 = as_2d X in
         if method = ''least_squares'' then fit_multiple pinv self0 X2 y
         else if method = ''gradient_descent''
         then fit_gradient_descent rand self0 X2 y learning_rate iterations
         else (Inr (), self0)))"

section \<open>evaluate\_regression\<close>











section \<open>one\_hot\_encode\<close>

text \<open>
  The loop \<^verbatim>\<open>for i in range(X.shape[1])\<close> over the remaining column indices, with the list
  \<^verbatim>\<open>X_transformed\<close> built so far.
\<close>

fun encode_columns ::
  "('a::linorder \<Rightarrow> real option) \<Rightarrow> 'a matrix \<Rightarrow> int list \<Rightarrow> bool \<Rightarrow> nat list
    \<Rightarrow> real list list \<Rightarrow> error + real list list" where
  "encode_columns cast X categorical_indices drop_first [] X_transformed = Inr X_transformed"
| "encode_columns cast X categorical_indices drop_first (i # is) X_transformed =
     (if int i \<in> set categorical_indices then
        (let categories = np_unique (column X i);
             categories = (if drop_first then drop 1 categories else categories)
         in encode_columns cast X categorical_indices drop_first is
              (X_transformed @
               map (\<lambda>category. map (\<lambda>v. if v = category then 1 else 0) (column X i)) categories))
      else
        (case astype_float cast (column X i) of
           Inl e \<Rightarrow> Inl e
         | Inr col \<Rightarrow>
             encode_columns cast X categorical_indices drop_first is (X_transformed @ [col])))"

definition one_hot_encode ::
  "('a::linorder \<Rightarrow> real option) \<Rightarrow> 'a matrix \<Rightarrow> int list \<Rightarrow> bool \<Rightarrow> error + real matrix" where
  "one_hot_encode cast X categorical_indices drop_first =
     (case encode_columns cast X categorical_indices drop_first [0..<ncols X] [] of
        Inl e \<Rightarrow> Inl e
      | Inr X_transformed \<Rightarrow> column_stack X_transformed)"

section \<open>Instances for the examples\<close>

text \<open>
  Instances of the two numpy functions for the examples: a generator whose every draw is
  one half, and a pseudo-inverse that is numpy's on the invertible 2 by 2 matrices (their
  inverse) and has only the shape of numpy's elsewhere.
\<close>



definition rand_half :: "nat \<Rightarrow> real" where
  "rand_half j = 1 / 2"

definition zeros :: "nat \<Rightarrow> nat \<Rightarrow> real matrix" where
  "zeros m n = Matrix n (replicate m (replicate n 0))"

definition pinv_2x2 :: "real matrix \<Rightarrow> real matrix" where
  "pinv_2x2 A =
     (case rows A of
        [[a, b], [c, d]] \<Rightarrow>
          if a * d - b * c = 0 then zeros (ncols A) (nrows A)
          else Matrix 2 [[d / (a * d - b * c), - b / (a * d - b * c)],
                         [- c / (a * d - b * c), a / (a * d - b * c)]]
      | _ \<Rightarrow> zeros (ncols A) (nrows A))"

text \<open>
  One epoch in the words of the specification, on the pair of intercept and coefficients:
  the residual of row \<open>i\<close> is the prediction minus the target, the coefficient gradient is
  \<open>(2 * learning_rate / N)\<close> times the product of the transposed matrix with the residual,
  the intercept gradient is \<open>(2 * learning_rate / N)\<close> times the sum of the residual, and
  both gradients are subtracted as they are.
\<close>

definition spec_epoch ::
  "real matrix \<Rightarrow> real list \<Rightarrow> real \<Rightarrow> real \<times> real list \<Rightarrow> real \<times> real list" where
  "spec_epoch X y learning_rate p =
     (let N = nrows X; b = fst p; w = snd p;
          prediction = (\<lambda>i. b + (\<Sum>j<ncols X. rows X ! i ! j * w ! j));
          residual = (\<lambda>i. prediction i - y ! i);
          coefficient_gradient =
            (\<lambda>j. (2 * learning_rate / real N) * (\<Sum>i<N. rows X ! i ! j * residual i));
          intercept_gradient = (2 * learning_rate / real N) * (\<Sum>i<N. residual i)
      in (b - intercept_gradient, map (\<lambda>j. snd p ! j - coefficient_gradient j) [0..<ncols X]))"

text \<open>
  Gradient descent in the words of the specification: intercept and coefficients start at
  the random draws scaled by 0.01 and go through \<open>k\<close> epochs.
\<close>

definition spec_gradient_descent ::
  "(nat \<Rightarrow> real) \<Rightarrow> real matrix \<Rightarrow> real list \<Rightarrow> real \<Rightarrow> nat \<Rightarrow> real \<times> real list" where
  "spec_gradient_descent rand X y learning_rate k =
     (spec_epoch X y learning_rate ^^ k)
       (rand (ncols X) * 0.01, map (\<lambda>j. rand j * 0.01) [0..<ncols X])"

text \<open>
  What one column contributes, in the words of the specification. A categorical column
  gives one indicator column per value of the sorted set of its distinct values, without
  the first of them when \<open>drop_first\<close> is set; any other column gives itself, cast.
\<close>

definition encoded_block ::
  "('a::linorder \<Rightarrow> real option) \<Rightarrow> 'a matrix \<Rightarrow> int list \<Rightarrow> bool \<Rightarrow> nat \<Rightarrow> real list list" where
  "encoded_block cast X categorical_indices drop_first i =
     (if int i \<in> set categorical_indices then
        map (\<lambda>category. map (\<lambda>v. if v = category then 1 else 0) (column X i))
          ((if drop_first then tl else id) (sorted_list_of_set (set (column X i))))
      else [map (\<lambda>v. the (cast v)) (column X i)])"

definition encoded_columns ::
  "('a::linorder \<Rightarrow> real option) \<Rightarrow> 'a matrix \<Rightarrow> int list \<Rightarrow> bool \<Rightarrow> real list list" where
  "encoded_columns cast X categorical_indices drop_first =
     concat (map (encoded_block cast X categorical_indices drop_first) [0..<ncols X])"

definition castable :: "('a \<Rightarrow> real option) \<Rightarrow> 'a matrix \<Rightarrow> int list \<Rightarrow> bool" where
  "castable cast X categorical_indices =
     (\<forall>i<ncols X. int i \<notin> set categorical_indices \<longrightarrow> (\<forall>v\<in>set (column X i). cast v \<noteq> None))"

text \<open>
  The normal equation in the words of the specification, entry by entry. \<open>Xb_entry X i k\<close>
  is the entry in row \<open>i\<close> and column \<open>k\<close> of \<open>X\<close> with a leading column of ones, \<open>gram X\<close>
  is \<open>X\<^sub>b\<^sup>T X\<^sub>b\<close>, and entry \<open>j\<close> of \<open>theta\<close> is that of \<open>pinv (X\<^sub>b\<^sup>T X\<^sub>b) X\<^sub>b\<^sup>T y\<close>.
\<close>

definition Xb_entry :: "real matrix \<Rightarrow> nat \<Rightarrow> nat \<Rightarrow> real" where
  "Xb_entry X i k = (if k = 0 then 1 else rows X ! i ! (k - 1))"

definition gram :: "real matrix \<Rightarrow> real matrix" where
  "gram X =
     Matrix (Suc (ncols X))
       (map (\<lambda>a. map (\<lambda>b. \<Sum>i<nrows X. Xb_entry X i a * Xb_entry X i b) [0..<Suc (ncols X)])
          [0..<Suc (ncols X)])"

definition normal_equation_theta ::
  "(real matrix \<Rightarrow> real matrix) \<Rightarrow> real matrix \<Rightarrow> real list \<Rightarrow> real list" where
  "normal_equation_theta pinv X y =
     map (\<lambda>j. \<Sum>i<nrows X.
                (\<Sum>k<Suc (ncols X). rows (pinv (gram X)) ! j ! k * Xb_entry X i k) * y ! i)
       [0..<Suc (ncols X)]"

text \<open>What is assumed of \<^verbatim>\<open>np.linalg.pinv\<close>: its result has the shape of the transpose.\<close>

definition pinv_shape :: "(real matrix \<Rightarrow> real matrix) \<Rightarrow> bool" where
  "pinv_shape pinv =
     (\<forall>A. wf_matrix A \<longrightarrow>
        wf_matrix (pinv A) \<and> ncols (pinv A) = nrows A \<and> nrows (pinv A) = ncols A)"

section \<open>Lemmas on the array operations\<close>

lemma inner_sum: "length xs = length ys \<Longrightarrow> inner xs ys = (\<Sum>i<length ys. xs ! i * ys ! i)"
  unfolding inner_def
proof (induction xs ys rule: list_induct2)
  case Nil
  then show ?case by simp
next
  case (Cons x xs y ys)
  then show ?case by (simp add: sum.lessThan_Suc_shift del: sum.lessThan_Suc)
qed

lemma inner_Cons: "inner (x # xs) (y # ys) = x * y + inner xs ys"
  by (simp add: inner_def)

lemma ncols_np_T [simp]: "ncols (np_T X) = nrows X"
  by (simp add: np_T_def)

lemma ncols_c_ones [simp]: "ncols (c_ones X) = Suc (ncols X)"
  by (simp add: c_ones_def)

lemma nrows_c_ones [simp]: "nrows (c_ones X) = nrows X"
  by (simp add: c_ones_def nrows_def)

lemma length_column [simp]: "length (column X k) = nrows X"
  by (simp add: column_def nrows_def)

lemma column_Matrix: "column (Matrix n rs) i = map (\<lambda>r. r ! i) rs"
  by (simp add: column_def)

section \<open>Dispatch of fit, and predict on a fitted model\<close>

text \<open>
  C8. A method string other than \<^verbatim>\<open>"least_squares"\<close> and \<^verbatim>\<open>"gradient_descent"\<close> makes
  \<^verbatim>\<open>fit\<close> fail with the invalid-argument error; with \<^verbatim>\<open>"least_squares"\<close> the call is
  \<^verbatim>\<open>fit_multiple\<close> and with \<^verbatim>\<open>"gradient_descent"\<close> it is \<^verbatim>\<open>fit_gradient_descent\<close>, both on
  the input reshaped to two dimensions.
\<close>

theorem fit_method_dispatch:
  "(method \<noteq> ''least_squares'' \<and> method \<noteq> ''gradient_descent'' \<longrightarrow>
      fst (fit pinv rand est X y method lr it) = Inl (InvalidArgument method))
   \<and> fit pinv rand est X y ''least_squares'' lr it = fit_multiple pinv est (as_2d X) y
   \<and> fit pinv rand est X y ''gradient_descent'' lr it
       = fit_gradient_descent rand est (as_2d X) y lr it"
  by (simp add: fit_def)

theorem fit_method_dispatch_witness:
  "(''bogus'' \<noteq> ''least_squares'' \<and> ''bogus'' \<noteq> ''gradient_descent'')
   \<and> fst (fit pinv_2x2 rand_half init (Arr1 [0, 1, 2]) [2, 5, 8] ''bogus'' (1 / 100) 1000)
       = Inl (InvalidArgument ''bogus'')"
  using fit_method_dispatch [of "''bogus''" pinv_2x2 rand_half init "Arr1 [0, 1, 2]" "[2, 5, 8]" "1 / 100" 1000]
  by simp

text \<open>
  C10. A call of \<^verbatim>\<open>fit\<close> with an invalid method string raises before it reshapes or
  dispatches: the estimator it leaves is the estimator it was given, fitted or not.
\<close>

theorem fit_invalid_method_atomic:
  "method \<noteq> ''least_squares'' \<Longrightarrow> method \<noteq> ''gradient_descent'' \<Longrightarrow>
     fit pinv rand est X y method lr it = (Inl (InvalidArgument method), est)"
  by (simp add: fit_def)

theorem fit_invalid_method_atomic_witness:
  "''bogus'' \<noteq> ''least_squares'' \<and> ''bogus'' \<noteq> ''gradient_descent''
   \<and> fit pinv_2x2 rand_half init (Arr1 [0, 1, 2]) [2, 5, 8] ''bogus'' (1 / 100) 1000
       = (Inl (InvalidArgument ''bogus''), init)
   \<and> fit pinv_2x2 rand_half \<lparr>coefficients = Some [3], intercept = Some 2\<rparr>
        (Arr2 (Matrix 1 [[0], [1]])) [2, 5] ''sgd'' (1 / 100) 1000
       = (Inl (InvalidArgument ''sgd''), \<lparr>coefficients = Some [3], intercept = Some 2\<rparr>)"
  using fit_invalid_method_atomic [of "''bogus''" pinv_2x2 rand_half init "Arr1 [0, 1, 2]" "[2, 5, 8]" "1 / 100" 1000]
    fit_invalid_method_atomic [of "''sgd''" pinv_2x2 rand_half "\<lparr>coefficients = Some [3], intercept = Some 2\<rparr>"
       "Arr2 (Matrix 1 [[0], [1]])" "[2, 5]" "1 / 100" 1000]
  by simp

text \<open>
  C7. On a fitted model, \<^verbatim>\<open>predict\<close> of a 1D input is \<open>intercept + c * x\<close> for each entry
  \<open>x\<close>, with \<open>c\<close> the first coefficient, whatever coefficients follow it. Of a 2D input
  with as many columns as there are coefficients, it is, for each row, the inner product of
  the row with a leading one and \<open>[intercept, coefficients]\<close>, that is the intercept plus
  the sum of the products of entries and coefficients; the result has one entry per row.
\<close>

theorem predict_fitted:
  "(coefficients est = Some (c # cs) \<and> intercept est = Some b \<longrightarrow>
      predict est (Arr1 xs) = Inr (map (\<lambda>x. b + c * x) xs))
   \<and> (coefficients est = Some w \<and> intercept est = Some b \<and> wf_matrix M \<and> ncols M = length w \<longrightarrow>
        predict est (Arr2 M) = Inr (map (\<lambda>r. b + (\<Sum>j<length w. r ! j * w ! j)) (rows M))
        \<and> (\<forall>ys. predict est (Arr2 M) = Inr ys \<longrightarrow> length ys = nrows M))"
proof (intro conjI impI)
  assume "coefficients est = Some (c # cs) \<and> intercept est = Some b"
  then show "predict est (Arr1 xs) = Inr (map (\<lambda>x. b + c * x) xs)"
    by (simp add: predict_def)
next
  assume h: "coefficients est = Some w \<and> intercept est = Some b \<and> wf_matrix M \<and> ncols M = length w"
  have "inner (1 # r) (b # w) = b + (\<Sum>j<length w. r ! j * w ! j)" if "r \<in> set (rows M)" for r
  proof -
    from that h have "length r = length w"
      by (simp add: wf_matrix_def list_all_iff)
    then show ?thesis by (simp add: inner_Cons inner_sum)
  qed
  with h show p: "predict est (Arr2 M) = Inr (map (\<lambda>r. b + (\<Sum>j<length w. r ! j * w ! j)) (rows M))"
    by (simp add: predict_def dot_mv_def c_ones_def)
  show "\<forall>ys. predict est (Arr2 M) = Inr ys \<longrightarrow> length ys = nrows M"
    by (simp add: p nrows_def)
qed

theorem predict_fitted_witness:
  "(coefficients \<lparr>coefficients = Some [2, 3], intercept = Some 1\<rparr> = Some (2 # [3])
     \<and> intercept \<lparr>coefficients = Some [2, 3], intercept = Some 1\<rparr> = Some 1)
   \<and> predict \<lparr>coefficients = Some [2, 3], intercept = Some 1\<rparr> (Arr1 [1, 1, 1]) = Inr [3, 3, 3]
   \<and> wf_matrix (Matrix 2 [[1, 1], [0, 2 :: real]]) \<and> ncols (Matrix 2 [[1, 1], [0, 2 :: real]]) = length [2, 3 :: real]
   \<and> predict \<lparr>coefficients = Some [2, 3], intercept = Some 1\<rparr> (Arr2 (Matrix 2 [[1, 1], [0, 2]])) = Inr [6, 7]"
  using predict_fitted [where est = "\<lparr>coefficients = Some [2, 3], intercept = Some 1\<rparr>"
      and c = 2 and cs = "[3]" and b = 1 and w = "[2, 3]" and M = "Matrix 2 [[1, 1], [0, 2]]"
      and xs = "[1, 1, 1]"]
  by (simp add: wf_matrix_def lessThan_Suc numeral_2_eq_2)

lemma predict_Arr2_length:
  "predict est (Arr2 X) = Inr ps \<Longrightarrow> length ps = nrows X"
  by (auto simp: predict_def dot_mv_def c_ones_def nrows_def split: if_splits)

lemma fit_multiple_mismatch:
  assumes "nrows X \<noteq> length y"
  shows "fit_multiple pinv est X y = (Inl ShapeMismatch, est)"
proof -
  have "dot_mv P y = Inl ShapeMismatch" if "dot_mm Q (np_T (c_ones X)) = Inr P" for P Q
    using that assms by (auto simp: dot_mm_def dot_mv_def split: if_splits)
  moreover have "e = ShapeMismatch" if "dot_mm A B = Inl e" for A B e
    using that by (auto simp: dot_mm_def split: if_splits)
  ultimately show ?thesis
    by (auto simp: fit_multiple_def Let_def split: sum.splits list.splits)
qed

lemma gd_epoch_mismatch:
  assumes "nrows X \<noteq> length y" and "length y \<noteq> 1"
    and "coefficients (self s) = Some w" and "intercept (self s) = Some b"
    and "length w = ncols X"
  shows "gd_epoch X y lr epoch s = (Some ShapeMismatch, s)"
proof -
  from assms obtain ps where ps: "predict (self s) (Arr2 X) = Inr ps"
    by (simp add: predict_def dot_mv_def)
  then have len: "length ps = nrows X" by (rule predict_Arr2_length)
  show ?thesis
  proof (cases "nrows X = 1")
    case True
    with len assms have "np_sub ps y = Inr (map (\<lambda>x. hd ps - x) y)"
      by (simp add: np_sub_def)
    moreover have "dot_mv (np_T X) (map (\<lambda>x. hd ps - x) y) = Inl ShapeMismatch"
      using assms by (simp add: dot_mv_def)
    ultimately show ?thesis using ps True by (simp add: gd_epoch_def)
  next
    case False
    with len assms have "np_sub ps y = Inl ShapeMismatch"
      by (simp add: np_sub_def)
    then show ?thesis using ps by (simp add: gd_epoch_def)
  qed
qed

lemma fit_gradient_descent_mismatch:
  assumes "nrows X \<noteq> length y" and "length y \<noteq> 1" and "0 < it"
  shows "fit_gradient_descent rand est X y lr it
         = (Inl ShapeMismatch,
            est\<lparr>coefficients := Some (map (\<lambda>j. rand j * 0.01) [0..<ncols X]),
                intercept := Some (rand (ncols X) * 0.01)\<rparr>)"
proof -
  from assms(3) obtain k where k: "nat it = Suc k"
    by (cases "nat it") auto
  have upt: "[0..<Suc k] = 0 # [1..<Suc k]"
    by (simp add: upt_rec)
  define s0 :: gd_locals where
    "s0 = \<lparr>self = est\<lparr>coefficients := Some (map (\<lambda>j. rand j * 0.01) [0..<ncols X]),
                          intercept := Some (rand (ncols X) * 0.01)\<rparr>,
           history_intercept = [], history_coefficients = [], training_history = None\<rparr>"
  have "gd_epoch X y lr 0 s0 = (Some ShapeMismatch, s0)"
    by (rule gd_epoch_mismatch [OF assms(1,2),
          where w = "map (\<lambda>j. rand j * 0.01) [0..<ncols X]" and b = "rand (ncols X) * 0.01"])
       (simp_all add: s0_def)
  then have "gd_loop X y lr [0..<nat it] s0 = (Some ShapeMismatch, s0)"
    by (simp add: k upt del: upt_Suc)
  then show ?thesis
    by (simp add: fit_gradient_descent_def gd_run_def Let_def s0_def [symmetric])
       (simp add: s0_def)
qed

section \<open>Shape agreement\<close>

text \<open>
  C3 (as amended). The source has no shape check of its own; a mismatch is an error only
  where a numpy operation cannot go on. With \<^verbatim>\<open>"least_squares"\<close>, \<^verbatim>\<open>fit\<close> fails with numpy's
  shape error whenever the row count of \<open>X\<close> differs from the length of \<open>y\<close>, and leaves
  the estimator as it was. With \<^verbatim>\<open>"gradient_descent"\<close> and at least one iteration it fails
  so unless \<open>y\<close> has length 1. \<^verbatim>\<open>predict\<close> of a 2D input fails so whenever the column count
  differs from the number of coefficients.
\<close>

theorem shape_mismatch_where_detected:
  "(nrows (as_2d X) \<noteq> length y \<longrightarrow>
      fit pinv rand est X y ''least_squares'' lr it = (Inl ShapeMismatch, est))
   \<and> (nrows (as_2d X) \<noteq> length y \<and> length y \<noteq> 1 \<and> 0 < it \<longrightarrow>
        fst (fit pinv rand est X y ''gradient_descent'' lr it) = Inl ShapeMismatch)
   \<and> (coefficients est = Some w \<and> intercept est = Some b \<and> ncols M \<noteq> length w \<longrightarrow>
        predict est (Arr2 M) = Inl ShapeMismatch)"
proof (intro conjI impI)
  assume "nrows (as_2d X) \<noteq> length y"
  then show "fit pinv rand est X y ''least_squares'' lr it = (Inl ShapeMismatch, est)"
    by (simp add: fit_def fit_multiple_mismatch)
next
  assume "nrows (as_2d X) \<noteq> length y \<and> length y \<noteq> 1 \<and> 0 < it"
  then show "fst (fit pinv rand est X y ''gradient_descent'' lr it) = Inl ShapeMismatch"
    by (simp add: fit_def fit_gradient_descent_mismatch)
next
  assume "coefficients est = Some w \<and> intercept est = Some b \<and> ncols M \<noteq> length w"
  then show "predict est (Arr2 M) = Inl ShapeMismatch"
    by (simp add: predict_def dot_mv_def)
qed

theorem shape_mismatch_where_detected_witness:
  "nrows (as_2d (Arr1 [0, 1, 2])) \<noteq> length [2, 5 :: real]
   \<and> fit pinv_2x2 rand_half init (Arr1 [0, 1, 2]) [2, 5] ''least_squares'' (1 / 100) 10
       = (Inl ShapeMismatch, init)
   \<and> length [2, 5 :: real] \<noteq> 1 \<and> (0 :: int) < 10
   \<and> fst (fit pinv_2x2 rand_half init (Arr1 [0, 1, 2]) [2, 5] ''gradient_descent'' (1 / 100) 10)
       = Inl ShapeMismatch
   \<and> coefficients \<lparr>coefficients = Some [2, 3], intercept = Some 1\<rparr> = Some [2, 3]
   \<and> intercept \<lparr>coefficients = Some [2, 3], intercept = Some 1\<rparr> = Some 1
   \<and> ncols (Matrix 1 [[1], [0 :: real]]) \<noteq> length [2, 3 :: real]
   \<and> predict \<lparr>coefficients = Some [2, 3], intercept = Some 1\<rparr> (Arr2 (Matrix 1 [[1], [0]]))
       = Inl ShapeMismatch"
  using shape_mismatch_where_detected [where X = "Arr1 [0, 1, 2]" and y = "[2, 5]"
      and pinv = pinv_2x2 and rand = rand_half and est = init and lr = "1 / 100" and it = 10
      and M = "Matrix 1 [[1], [0]]" and w = "[2, 3]" and b = 1]
    shape_mismatch_where_detected [where X = "Arr1 [0, 1, 2]" and y = "[2, 5]"
      and pinv = pinv_2x2 and rand = rand_half
      and est = "\<lparr>coefficients = Some [2, 3], intercept = Some 1\<rparr>" and lr = "1 / 100" and it = 10
      and M = "Matrix 1 [[1], [0]]" and w = "[2, 3]" and b = 1]
  by (simp add: as_2d_def reshape_col_def nrows_def)

text \<open>
  The claim as stated fails twice: gradient descent on two rows and a target of length 1
  broadcasts the target and succeeds, and \<^verbatim>\<open>predict\<close> of a 1D input on a model with two
  coefficients returns values.
\<close>

theorem shape_mismatch_counterexample:
  "nrows (as_2d (Arr1 [1, 2])) \<noteq> length [5 :: real]
   \<and> fit pinv_2x2 rand_half init (Arr1 [1, 2]) [5] ''gradient_descent'' (1 / 10) 1
       = (Inr (), \<lparr>coefficients = Some [1501 / 1000], intercept = Some (401 / 400)\<rparr>)
   \<and> predict \<lparr>coefficients = Some [2, 3], intercept = Some 1\<rparr> (Arr1 [1, 1, 1]) = Inr [3, 3, 3]"
  by (simp add: as_2d_def reshape_col_def nrows_def fit_def fit_gradient_descent_def gd_run_def
      gd_epoch_def predict_def dot_mv_def c_ones_def np_T_def column_def inner_def np_sub_def
      np_mean_def np_div_def rand_half_def init_def Let_def)

section \<open>Prediction without fitted parameters\<close>





section \<open>Evaluation of a vector against itself\<close>








section \<open>Gradient descent\<close>

lemma length_snd_spec_epoch [simp]: "length (snd (spec_epoch X y lr p)) = ncols X"
  by (simp add: spec_epoch_def Let_def)

lemma wf_matrix_row: "wf_matrix X \<Longrightarrow> i < nrows X \<Longrightarrow> length (rows X ! i) = ncols X"
  by (simp add: wf_matrix_def list_all_length nrows_def)

lemma sum_list_nth_lessThan: "sum_list (xs :: real list) = (\<Sum>i<length xs. xs ! i)"
  by (simp add: sum_list_sum_nth atLeast0LessThan)

lemma predict_Arr2_nth:
  assumes "wf_matrix X" and "coefficients est = Some w" and "intercept est = Some b"
    and "length w = ncols X"
  shows "predict est (Arr2 X)
         = Inr (map (\<lambda>i. b + (\<Sum>j<ncols X. rows X ! i ! j * w ! j)) [0..<nrows X])"
proof -
  have "map (\<lambda>r. inner (1 # r) (b # w)) (rows X)
        = map (\<lambda>i. b + (\<Sum>j<ncols X. rows X ! i ! j * w ! j)) [0..<nrows X]"
  proof (rule nth_equalityI)
    show "length (map (\<lambda>r. inner (1 # r) (b # w)) (rows X))
          = length (map (\<lambda>i. b + (\<Sum>j<ncols X. rows X ! i ! j * w ! j)) [0..<nrows X])"
      by (simp add: nrows_def)
  next
    fix i assume "i < length (map (\<lambda>r. inner (1 # r) (b # w)) (rows X))"
    then have i: "i < nrows X" by (simp add: nrows_def)
    then have "length (rows X ! i) = length w"
      using assms by (simp add: wf_matrix_row)
    then have "inner (1 # rows X ! i) (b # w) = b + (\<Sum>j<ncols X. rows X ! i ! j * w ! j)"
      using assms(4) by (simp add: inner_Cons inner_sum)
    with i show "map (\<lambda>r. inner (1 # r) (b # w)) (rows X) ! i
          = map (\<lambda>i. b + (\<Sum>j<ncols X. rows X ! i ! j * w ! j)) [0..<nrows X] ! i"
      by (simp add: nrows_def)
  qed
  with assms show ?thesis
    by (simp add: predict_def dot_mv_def c_ones_def o_def)
qed

lemma np_sub_nth:
  "length y = n \<Longrightarrow> np_sub (map f [0..<n]) y = Inr (map (\<lambda>i. f i - y ! i) [0..<n])"
  by (auto simp: np_sub_def intro!: nth_equalityI)

lemma dot_mv_np_T_nth:
  "dot_mv (np_T X) (map f [0..<nrows X])
   = Inr (map (\<lambda>j. \<Sum>i<nrows X. rows X ! i ! j * f i) [0..<ncols X])"
proof -
  have "inner (column X j) (map f [0..<nrows X]) = (\<Sum>i<nrows X. rows X ! i ! j * f i)" for j
    by (subst inner_sum) (simp_all add: column_def nrows_def)
  then show ?thesis
    by (simp add: dot_mv_def np_T_def)
qed

lemma map2_minus_upt:
  "length w = n \<Longrightarrow> map2 (-) w (map ((*) k) (map g [0..<n])) = map (\<lambda>j. w ! j - k * g j) [0..<n]"
  by (auto intro!: nth_equalityI)

lemma gd_epoch_ok:
  assumes "wf_matrix X" and "length y = nrows X" and "0 < nrows X"
    and "coefficients (self s) = Some w" and "intercept (self s) = Some b"
    and "length w = ncols X" and "epoch = 0 \<or> training_history s \<noteq> None"
  shows "\<exists>s'. gd_epoch X y lr epoch s = (None, s')
           \<and> self s' = (self s)\<lparr>intercept := Some (fst (spec_epoch X y lr (b, w))),
                                  coefficients := Some (snd (spec_epoch X y lr (b, w)))\<rparr>
           \<and> history_intercept s' = history_intercept s @ [fst (spec_epoch X y lr (b, w))]
           \<and> history_coefficients s'
               = history_coefficients s @ [snd (spec_epoch X y lr (b, w))]
           \<and> training_history s' \<noteq> None"
proof -
  define res where "res = (\<lambda>i. b + (\<Sum>j<ncols X. rows X ! i ! j * w ! j) - y ! i)"
  define k where "k = 2 * lr / real (nrows X)"
  have p: "predict (self s) (Arr2 X)
           = Inr (map (\<lambda>i. b + (\<Sum>j<ncols X. rows X ! i ! j * w ! j)) [0..<nrows X])"
    using assms by (simp add: predict_Arr2_nth)
  have e: "np_sub (map (\<lambda>i. b + (\<Sum>j<ncols X. rows X ! i ! j * w ! j)) [0..<nrows X]) y
           = Inr (map res [0..<nrows X])"
    using assms(2) by (simp add: np_sub_nth res_def)
  have d: "dot_mv (np_T X) (map res [0..<nrows X])
           = Inr (map (\<lambda>j. \<Sum>i<nrows X. rows X ! i ! j * res i) [0..<ncols X])"
    by (rule dot_mv_np_T_nth)
  have sl: "sum_list (map res [0..<nrows X]) = (\<Sum>i<nrows X. res i)"
    by (simp add: sum_list_nth_lessThan)
  have c: "map2 (-) w (map ((*) k) (map (\<lambda>j. \<Sum>i<nrows X. rows X ! i ! j * res i) [0..<ncols X]))
           = snd (spec_epoch X y lr (b, w))"
    using assms(6) by (subst map2_minus_upt) (simp_all add: spec_epoch_def Let_def res_def k_def)
  have i: "b - k * (\<Sum>i<nrows X. res i) = fst (spec_epoch X y lr (b, w))"
    by (simp add: spec_epoch_def Let_def res_def k_def)
  from assms(7) consider "epoch = 0" | th where "epoch \<noteq> 0" "training_history s = Some th"
    by (cases "training_history s") auto
  then show ?thesis
  proof cases
    case 1
    then show ?thesis
      using assms(3,4,5) c i
      by (auto simp add: gd_epoch_def p e d sl Let_def k_def [symmetric] simp del: map_map)
  next
    case 2
    then show ?thesis
      using assms(3,4,5) c i
      by (cases th; cases "epoch mod 10 = 0")
         (auto simp add: gd_epoch_def p e d sl Let_def k_def [symmetric] simp del: map_map)
  qed
qed

lemma gd_loop_ok:
  assumes "wf_matrix X" and "length y = nrows X" and "0 < nrows X"
    and "coefficients (self s) = Some w" and "intercept (self s) = Some b"
    and "length w = ncols X" and "es = [] \<or> hd es = 0 \<or> training_history s \<noteq> None"
  shows "\<exists>s'. gd_loop X y lr es s = (None, s')
           \<and> self s' = (self s)\<lparr>intercept := Some (fst ((spec_epoch X y lr ^^ length es) (b, w))),
                                  coefficients := Some (snd ((spec_epoch X y lr ^^ length es) (b, w)))\<rparr>
           \<and> history_intercept s'
               = history_intercept s
                 @ map (\<lambda>k. fst ((spec_epoch X y lr ^^ Suc k) (b, w))) [0..<length es]
           \<and> history_coefficients s'
               = history_coefficients s
                 @ map (\<lambda>k. snd ((spec_epoch X y lr ^^ Suc k) (b, w))) [0..<length es]
           \<and> (es \<noteq> [] \<longrightarrow> training_history s' \<noteq> None)"
  using assms(4-7)
proof (induction es arbitrary: s b w)
  case Nil
  have "(self s)\<lparr>intercept := Some b, coefficients := Some w\<rparr> = self s"
    using Nil by (cases "self s") simp
  then show ?case by simp
next
  case (Cons e es)
  let ?f = "spec_epoch X y lr"
  from Cons.prems have "e = 0 \<or> training_history s \<noteq> None" by simp
  from gd_epoch_ok [OF assms(1-3) Cons.prems(1-3) this, of lr]
  obtain s1 where s1: "gd_epoch X y lr e s = (None, s1)"
    and self1: "self s1 = (self s)\<lparr>intercept := Some (fst (?f (b, w))),
                                     coefficients := Some (snd (?f (b, w)))\<rparr>"
    and hi1: "history_intercept s1 = history_intercept s @ [fst (?f (b, w))]"
    and hc1: "history_coefficients s1 = history_coefficients s @ [snd (?f (b, w))]"
    and th1: "training_history s1 \<noteq> None"
    by blast
  have "\<exists>s'. gd_loop X y lr es s1 = (None, s')
           \<and> self s' = (self s1)\<lparr>intercept := Some (fst ((?f ^^ length es) (fst (?f (b, w)), snd (?f (b, w))))),
                                   coefficients := Some (snd ((?f ^^ length es) (fst (?f (b, w)), snd (?f (b, w)))))\<rparr>
           \<and> history_intercept s'
               = history_intercept s1
                 @ map (\<lambda>k. fst ((?f ^^ Suc k) (fst (?f (b, w)), snd (?f (b, w))))) [0..<length es]
           \<and> history_coefficients s'
               = history_coefficients s1
                 @ map (\<lambda>k. snd ((?f ^^ Suc k) (fst (?f (b, w)), snd (?f (b, w))))) [0..<length es]
           \<and> (es \<noteq> [] \<longrightarrow> training_history s' \<noteq> None)"
    by (rule Cons.IH) (simp_all add: self1 th1)
  then obtain s' where l: "gd_loop X y lr es s1 = (None, s')"
    and self': "self s' = (self s1)\<lparr>intercept := Some (fst ((?f ^^ length es) (?f (b, w)))),
                                     coefficients := Some (snd ((?f ^^ length es) (?f (b, w))))\<rparr>"
    and hi': "history_intercept s'
               = history_intercept s1 @ map (\<lambda>k. fst ((?f ^^ Suc k) (?f (b, w)))) [0..<length es]"
    and hc': "history_coefficients s'
               = history_coefficients s1 @ map (\<lambda>k. snd ((?f ^^ Suc k) (?f (b, w)))) [0..<length es]"
    and th': "es \<noteq> [] \<longrightarrow> training_history s' \<noteq> None"
    by auto
  have sw: "(?f ^^ n) (?f (b, w)) = (?f ^^ Suc n) (b, w)" for n
    by (simp add: funpow_swap1)
  have "gd_loop X y lr (e # es) s = (None, s')"
    by (simp add: s1 l)
  moreover have "self s' = (self s)\<lparr>intercept := Some (fst ((?f ^^ length (e # es)) (b, w))),
                                       coefficients := Some (snd ((?f ^^ length (e # es)) (b, w)))\<rparr>"
    unfolding self' self1 sw by simp
  moreover have "history_intercept s'
      = history_intercept s @ map (\<lambda>k. fst ((?f ^^ Suc k) (b, w))) [0..<length (e # es)]"
    unfolding hi' hi1 sw by (simp add: map_upt_Suc del: upt_Suc)
  moreover have "history_coefficients s'
      = history_coefficients s @ map (\<lambda>k. snd ((?f ^^ Suc k) (b, w))) [0..<length (e # es)]"
    unfolding hc' hc1 sw by (simp add: map_upt_Suc del: upt_Suc)
  moreover have "training_history s' \<noteq> None"
  proof (cases es)
    case Nil
    with l th1 show ?thesis by simp
  next
    case (Cons a list)
    with th' show ?thesis by simp
  qed
  ultimately show ?case by blast
qed

lemma gd_run_ok:
  assumes "wf_matrix X" and "length y = nrows X" and "0 < nrows X"
  shows "\<exists>s. gd_run rand est X y lr it = (if 0 < it then None else Some UnboundLocalError, s)
           \<and> self s = est\<lparr>coefficients := Some (snd (spec_gradient_descent rand X y lr (nat it))),
                            intercept := Some (fst (spec_gradient_descent rand X y lr (nat it)))\<rparr>
           \<and> history_intercept s
               = map (\<lambda>k. fst (spec_gradient_descent rand X y lr (Suc k))) [0..<nat it]
           \<and> history_coefficients s
               = map (\<lambda>k. snd (spec_gradient_descent rand X y lr (Suc k))) [0..<nat it]"
proof -
  define s0 :: gd_locals where
    "s0 = \<lparr>self = est\<lparr>coefficients := Some (map (\<lambda>j. rand j * 0.01) [0..<ncols X]),
                          intercept := Some (rand (ncols X) * 0.01)\<rparr>,
           history_intercept = [], history_coefficients = [], training_history = None\<rparr>"
  let ?f = "spec_epoch X y lr"
  let ?w = "map (\<lambda>j. rand j * 0.01) [0..<ncols X]" and ?b = "rand (ncols X) * 0.01"
  have "[0..<nat it] = [] \<or> hd [0..<nat it] = 0 \<or> training_history s0 \<noteq> None"
    by (cases "nat it") (simp_all add: upt_rec)
  from gd_loop_ok [OF assms _ _ _ this, of ?w ?b lr]
  obtain s where l: "gd_loop X y lr [0..<nat it] s0 = (None, s)"
    and sf: "self s = (self s0)\<lparr>intercept := Some (fst ((?f ^^ nat it) (?b, ?w))),
                                  coefficients := Some (snd ((?f ^^ nat it) (?b, ?w)))\<rparr>"
    and hi: "history_intercept s
             = history_intercept s0 @ map (\<lambda>k. fst ((?f ^^ Suc k) (?b, ?w))) [0..<nat it]"
    and hc: "history_coefficients s
             = history_coefficients s0 @ map (\<lambda>k. snd ((?f ^^ Suc k) (?b, ?w))) [0..<nat it]"
    and th: "[0..<nat it] \<noteq> [] \<longrightarrow> training_history s \<noteq> None"
    by (auto simp: s0_def)
  have gr: "gd_run rand est X y lr it
            = (case gd_loop X y lr [0..<nat it] s0 of
                 (Some e, s) \<Rightarrow> (Some e, s)
               | (None, s) \<Rightarrow>
                   (case training_history s of
                      None \<Rightarrow> (Some UnboundLocalError, s)
                    | Some _ \<Rightarrow>
                        (case history_coefficients s of
                           [] \<Rightarrow> (Some IndexError, s)
                         | _ # _ \<Rightarrow> (None, s))))"
    unfolding gd_run_def Let_def s0_def by (rule refl)
  have r: "gd_run rand est X y lr it = (if 0 < it then None else Some UnboundLocalError, s)"
  proof (cases "0 < it")
    case True
    with th obtain t where t: "training_history s = Some t" by auto
    from True hc have "history_coefficients s \<noteq> []" by simp
    then obtain c cs where "history_coefficients s = c # cs"
      by (cases "history_coefficients s") auto
    with True t l show ?thesis
      by (simp add: gr)
  next
    case False
    with l have "s = s0" by simp
    with False l show ?thesis
      by (simp add: gr) (simp add: s0_def)
  qed
  show ?thesis
    using r sf hi hc by (auto simp: spec_gradient_descent_def s0_def)
qed

lemma gd_epoch_success:
  "gd_epoch X y lr e s = (None, s') \<Longrightarrow>
     \<exists>b' w'. self s' = (self s)\<lparr>intercept := Some b', coefficients := Some w'\<rparr>
        \<and> history_intercept s' = history_intercept s @ [b']
        \<and> history_coefficients s' = history_coefficients s @ [w']"
  by (auto simp: gd_epoch_def Let_def split: sum.splits if_splits option.splits prod.splits)

lemma gd_loop_success:
  "gd_loop X y lr es s = (None, s') \<Longrightarrow> es \<noteq> [] \<Longrightarrow>
     intercept (self s') = Some (last (history_intercept s'))
     \<and> coefficients (self s') = Some (last (history_coefficients s'))
     \<and> length (history_intercept s') = length (history_intercept s) + length es
     \<and> length (history_coefficients s') = length (history_coefficients s) + length es"
proof (induction es arbitrary: s)
  case Nil
  then show ?case by simp
next
  case (Cons e es)
  obtain r s1 where e: "gd_epoch X y lr e s = (r, s1)"
    by (cases "gd_epoch X y lr e s")
  with Cons.prems(1) have r: "r = None" and l: "gd_loop X y lr es s1 = (None, s')"
    by (cases r; simp)+
  from e r have e1: "gd_epoch X y lr e s = (None, s1)" by simp
  from gd_epoch_success [OF e1] obtain b' w' where
    s1: "self s1 = (self s)\<lparr>intercept := Some b', coefficients := Some w'\<rparr>"
    "history_intercept s1 = history_intercept s @ [b']"
    "history_coefficients s1 = history_coefficients s @ [w']"
    by blast
  show ?case
  proof (cases es)
    case Nil
    with l have "s' = s1" by simp
    with s1 Nil show ?thesis by simp
  next
    case (Cons a list)
    then have "es \<noteq> []" by simp
    from Cons.IH [OF l this] s1 show ?thesis by simp
  qed
qed

text \<open>
  C2. On a well-formed matrix with \<open>N > 0\<close> rows and a target of length \<open>N\<close>, a call of
  \<^verbatim>\<open>fit_gradient_descent\<close> runs the epoch of the specification exactly \<open>iterations\<close> times
  from the random start: the parameters it leaves are that iterate, the history holds
  one snapshot per epoch (the iterates 1 to \<open>iterations\<close>), and no epoch raises, so the loop
  never stops early. The epoch subtracts \<open>(2 * learning_rate / N) * X\<^sup>T residual\<close> and
  \<open>(2 * learning_rate / N) * sum residual\<close> as they are.
\<close>

theorem gradient_descent_runs_spec_epochs:
  assumes "wf_matrix X" and "length y = nrows X" and "0 < nrows X"
  shows "snd (fit_gradient_descent rand est X y lr it)
           = est\<lparr>coefficients := Some (snd (spec_gradient_descent rand X y lr (nat it))),
                    intercept := Some (fst (spec_gradient_descent rand X y lr (nat it)))\<rparr>
         \<and> fst (fit_gradient_descent rand est X y lr it)
             = (if 0 < it then Inr () else Inl UnboundLocalError)
         \<and> history_intercept (snd (gd_run rand est X y lr it))
             = map (\<lambda>k. fst (spec_gradient_descent rand X y lr (Suc k))) [0..<nat it]
         \<and> history_coefficients (snd (gd_run rand est X y lr it))
             = map (\<lambda>k. snd (spec_gradient_descent rand X y lr (Suc k))) [0..<nat it]"
proof -
  from gd_run_ok [OF assms, of rand est lr it] obtain s where
    "gd_run rand est X y lr it = (if 0 < it then None else Some UnboundLocalError, s)"
    "self s = est\<lparr>coefficients := Some (snd (spec_gradient_descent rand X y lr (nat it))),
                    intercept := Some (fst (spec_gradient_descent rand X y lr (nat it)))\<rparr>"
    "history_intercept s = map (\<lambda>k. fst (spec_gradient_descent rand X y lr (Suc k))) [0..<nat it]"
    "history_coefficients s = map (\<lambda>k. snd (spec_gradient_descent rand X y lr (Suc k))) [0..<nat it]"
    by blast
  then show ?thesis
    by (simp add: fit_gradient_descent_def)
qed

theorem gradient_descent_runs_spec_epochs_witness:
  "wf_matrix (Matrix 1 [[0], [1], [2 :: real]])
   \<and> length [2, 5, 8 :: real] = nrows (Matrix 1 [[0], [1], [2 :: real]])
   \<and> 0 < nrows (Matrix 1 [[0], [1], [2 :: real]])
   \<and> fit_gradient_descent rand_half init (Matrix 1 [[0], [1], [2]]) [2, 5, 8] (1 / 10) 2
       = (Inr (), \<lparr>coefficients = Some [96043 / 45000], intercept = Some (22829 / 15000)\<rparr>)
   \<and> spec_gradient_descent rand_half (Matrix 1 [[0], [1], [2]]) [2, 5, 8] (1 / 10) (nat 2)
       = (22829 / 15000, [96043 / 45000])"
  using gradient_descent_runs_spec_epochs [of "Matrix 1 [[0], [1], [2]]" "[2, 5, 8]"
      rand_half init "1 / 10" 2]
  by (simp add: wf_matrix_def nrows_def init_def prod_eq_iff spec_gradient_descent_def
      spec_epoch_def rand_half_def Let_def lessThan_Suc numeral_2_eq_2 numeral_3_eq_3)

text \<open>
  C4 (as amended). \<^verbatim>\<open>fit_gradient_descent\<close> returns nothing and keeps both traces in local
  variables. When it succeeds, at least one epoch has run, the parameter trace has one
  entry per epoch, and what the caller can read afterwards, the intercept and the
  coefficients of the estimator, is the last entry of that trace.
\<close>

theorem gradient_descent_leaves_last_snapshot:
  assumes "fit_gradient_descent rand est X y lr it = (Inr (), est')"
  shows "0 < it
         \<and> est' = self (snd (gd_run rand est X y lr it))
         \<and> intercept est' = Some (last (history_intercept (snd (gd_run rand est X y lr it))))
         \<and> coefficients est' = Some (last (history_coefficients (snd (gd_run rand est X y lr it))))
         \<and> length (history_intercept (snd (gd_run rand est X y lr it))) = nat it
         \<and> length (history_coefficients (snd (gd_run rand est X y lr it))) = nat it"
proof -
  define s0 :: gd_locals where
    "s0 = \<lparr>self = est\<lparr>coefficients := Some (map (\<lambda>j. rand j * 0.01) [0..<ncols X]),
                          intercept := Some (rand (ncols X) * 0.01)\<rparr>,
           history_intercept = [], history_coefficients = [], training_history = None\<rparr>"
  have gr: "gd_run rand est X y lr it
            = (case gd_loop X y lr [0..<nat it] s0 of
                 (Some e, s) \<Rightarrow> (Some e, s)
               | (None, s) \<Rightarrow>
                   (case training_history s of
                      None \<Rightarrow> (Some UnboundLocalError, s)
                    | Some _ \<Rightarrow>
                        (case history_coefficients s of
                           [] \<Rightarrow> (Some IndexError, s)
                         | _ # _ \<Rightarrow> (None, s))))"
    unfolding gd_run_def Let_def s0_def by (rule refl)
  obtain r s where l: "gd_loop X y lr [0..<nat it] s0 = (r, s)"
    by (cases "gd_loop X y lr [0..<nat it] s0")
  from assms have "fst (gd_run rand est X y lr it) = None"
    by (auto simp: fit_gradient_descent_def split: prod.splits option.splits)
  with l have r: "r = None" and th: "training_history s \<noteq> None"
    and run: "gd_run rand est X y lr it = (None, s)"
    by (auto simp: gr split: option.splits list.splits)
  have pos: "0 < it"
  proof (rule ccontr)
    assume "\<not> 0 < it"
    with l have "s = s0" by simp
    with th show False by (simp add: s0_def)
  qed
  then have ne: "[0..<nat it] \<noteq> []" by simp
  from l r have "gd_loop X y lr [0..<nat it] s0 = (None, s)" by simp
  from gd_loop_success [OF this ne] have
    "intercept (self s) = Some (last (history_intercept s))"
    "coefficients (self s) = Some (last (history_coefficients s))"
    "length (history_intercept s) = nat it"
    "length (history_coefficients s) = nat it"
    by (simp_all add: s0_def)
  moreover from assms run have "est' = self s"
    by (simp add: fit_gradient_descent_def)
  ultimately show ?thesis using pos run by simp
qed

theorem gradient_descent_leaves_last_snapshot_witness:
  "fit_gradient_descent rand_half init (Matrix 1 [[0], [1], [2]]) [2, 5, 8] (1 / 10) 2
     = (Inr (), \<lparr>coefficients = Some [96043 / 45000], intercept = Some (22829 / 15000)\<rparr>)
   \<and> history_intercept (snd (gd_run rand_half init (Matrix 1 [[0], [1], [2]]) [2, 5, 8] (1 / 10) 2))
       = [1003 / 1000, 22829 / 15000]
   \<and> history_coefficients (snd (gd_run rand_half init (Matrix 1 [[0], [1], [2]]) [2, 5, 8] (1 / 10) 2))
       = [[4207 / 3000], [96043 / 45000]]
   \<and> training_history (snd (gd_run rand_half init (Matrix 1 [[0], [1], [2]]) [2, 5, 8] (1 / 10) 2))
       = Some ([0], [Num (1852807 / 60000)])"
  using gradient_descent_leaves_last_snapshot [of rand_half init "Matrix 1 [[0], [1], [2]]"
      "[2, 5, 8]" "1 / 10" 2 "\<lparr>coefficients = Some [96043 / 45000], intercept = Some (22829 / 15000)\<rparr>"]
  by (simp add: fit_gradient_descent_def gd_run_def gd_epoch_def predict_def dot_mv_def
      c_ones_def np_T_def column_def inner_def np_sub_def nrows_def np_mean_def np_div_def
      rand_half_def init_def Let_def numeral_2_eq_2 power2_eq_square)

text \<open>
  The claim as stated fails: two calls that differ only in the target leave the same
  estimator and return the same value, and their MSE traces differ, so the trace cannot be
  read from what the call gives back.
\<close>

theorem gradient_descent_traces_counterexample:
  "fit_gradient_descent rand_half init (Matrix 1 [[1]]) [0] 0 1
     = (Inr (), \<lparr>coefficients = Some [1 / 200], intercept = Some (1 / 200)\<rparr>)
   \<and> fit_gradient_descent rand_half init (Matrix 1 [[1]]) [1] 0 1
       = (Inr (), \<lparr>coefficients = Some [1 / 200], intercept = Some (1 / 200)\<rparr>)
   \<and> training_history (snd (gd_run rand_half init (Matrix 1 [[1]]) [0] 0 1))
       = Some ([0], [Num (1 / 10000)])
   \<and> training_history (snd (gd_run rand_half init (Matrix 1 [[1]]) [1] 0 1))
       = Some ([0], [Num (9801 / 10000)])"
  by (simp add: fit_gradient_descent_def gd_run_def gd_epoch_def predict_def dot_mv_def
      c_ones_def np_T_def column_def inner_def np_sub_def nrows_def np_mean_def np_div_def
      rand_half_def init_def Let_def power2_eq_square)

section \<open>One-hot encoding\<close>

lemma distinct_remdups_adj_sorted: "sorted xs \<Longrightarrow> distinct (remdups_adj xs)"
proof (induction xs rule: remdups_adj.induct)
  case (3 x y xs)
  then show ?case by (cases "x = y") auto
qed simp_all

lemma np_unique_sorted_set: "np_unique xs = sorted_list_of_set (set xs)"
proof -
  have "sorted (np_unique xs)"
    by (simp add: np_unique_def)
  moreover have "distinct (np_unique xs)"
    by (simp add: np_unique_def distinct_remdups_adj_sorted)
  moreover have "set (np_unique xs) = set xs"
    by (simp add: np_unique_def)
  ultimately show ?thesis
    using sorted_list_of_set.idem_if_sorted_distinct [of "np_unique xs"] by simp
qed

lemma those_map_all:
  "\<forall>v\<in>set xs. cast v \<noteq> None \<Longrightarrow> those (map cast xs) = Some (map (\<lambda>v. the (cast v)) xs)"
  by (induction xs) auto

lemma those_map_some_none:
  "\<exists>v\<in>set xs. cast v = None \<Longrightarrow> those (map cast xs) = None"
  by (induction xs) (auto split: option.splits)

lemma astype_float_cases:
  "astype_float cast col
   = (if \<forall>v\<in>set col. cast v \<noteq> None then Inr (map (\<lambda>v. the (cast v)) col) else Inl CastError)"
  by (auto simp: astype_float_def those_map_all those_map_some_none)

lemma encode_columns_blocks:
  "\<forall>i\<in>set is. int i \<notin> set cats \<longrightarrow> (\<forall>v\<in>set (column X i). cast v \<noteq> None) \<Longrightarrow>
   encode_columns cast X cats drop_first is acc
   = Inr (acc @ concat (map (encoded_block cast X cats drop_first) is))"
proof (induction "is" arbitrary: acc)
  case Nil
  then show ?case by simp
next
  case (Cons i "is")
  show ?case
  proof (cases "int i \<in> set cats")
    case True
    with Cons show ?thesis
      by (simp add: encoded_block_def np_unique_sorted_set Let_def drop_Suc)
  next
    case False
    with Cons.prems have "\<forall>v\<in>set (column X i). cast v \<noteq> None" by simp
    with False Cons show ?thesis
      by (simp add: encoded_block_def astype_float_cases)
  qed
qed

lemma encoded_block_lengths:
  "c \<in> set (encoded_block cast X cats drop_first i) \<Longrightarrow> length c = nrows X"
  by (auto simp: encoded_block_def column_def nrows_def split: if_splits)

lemma encoded_columns_lengths:
  "c \<in> set (encoded_columns cast X cats drop_first) \<Longrightarrow> length c = nrows X"
  by (auto simp: encoded_columns_def dest: encoded_block_lengths)

lemma column_stack_same_length:
  assumes "cols \<noteq> []" and "\<forall>c\<in>set cols. length c = n"
  shows "column_stack cols = Inr (Matrix (length cols) (map (\<lambda>r. map (\<lambda>c. c ! r) cols) [0..<n]))"
  using assms by (cases cols) (auto simp: column_stack_def list_all_iff)

lemma one_hot_encode_castable:
  assumes "castable cast X cats"
  shows "one_hot_encode cast X cats drop_first
         = column_stack (encoded_columns cast X cats drop_first)"
proof -
  from assms have "\<forall>i\<in>set [0..<ncols X]. int i \<notin> set cats
      \<longrightarrow> (\<forall>v\<in>set (column X i). cast v \<noteq> None)"
    by (simp add: castable_def)
  then show ?thesis
    by (simp add: one_hot_encode_def encode_columns_blocks encoded_columns_def)
qed

lemma encoded_block_np_unique:
  "encoded_block cast X cats drop_first i =
     (if int i \<in> set cats then
        map (\<lambda>category. map (\<lambda>v. if v = category then 1 else 0) (column X i))
          ((if drop_first then tl else id) (np_unique (column X i)))
      else [map (\<lambda>v. the (cast v)) (column X i)])"
  by (simp add: encoded_block_def np_unique_sorted_set)

text \<open>
  When the entries of the columns that are not categorical cast to numbers and at least
  one output column is produced, \<^verbatim>\<open>one_hot_encode\<close> returns the matrix whose columns are,
  from left to right and for each input column in turn, the block of that column: the
  indicator columns of its sorted distinct values (without the smallest when
  \<open>drop_first\<close> is set) for a categorical column, the cast column itself otherwise.
\<close>

lemma one_hot_encode_interleaved_blocks:
  assumes "castable cast X cats" and "encoded_columns cast X cats drop_first \<noteq> []"
  shows "one_hot_encode cast X cats drop_first
         = Inr (Matrix (length (encoded_columns cast X cats drop_first))
                 (map (\<lambda>r. map (\<lambda>c. c ! r) (encoded_columns cast X cats drop_first))
                    [0..<nrows X]))"
proof -
  have "column_stack (encoded_columns cast X cats drop_first)
        = Inr (Matrix (length (encoded_columns cast X cats drop_first))
                (map (\<lambda>r. map (\<lambda>c. c ! r) (encoded_columns cast X cats drop_first))
                   [0..<nrows X]))"
  proof (intro column_stack_same_length)
    from assms(2) show "encoded_columns cast X cats drop_first \<noteq> []" .
    show "\<forall>c\<in>set (encoded_columns cast X cats drop_first). length c = nrows X"
      by (simp add: encoded_columns_lengths)
  qed
  with assms(1) show ?thesis
    by (simp add: one_hot_encode_castable)
qed

text \<open>
  The examples of the specification: the column \<open>a, b, a\<close> gives the indicator columns
  \<open>1, 0, 1\<close> and \<open>0, 1, 0\<close>, and only the second with \<open>drop_first\<close>; a categorical column
  between two numeric ones is replaced where it stands.
\<close>

lemma one_hot_encode_examples:
  "one_hot_encode Map.empty (Matrix 1 [[''a''], [''b''], [''a'']]) [0] False
     = Inr (Matrix 2 [[1, 0], [0, 1], [1, 0]])
   \<and> one_hot_encode Map.empty (Matrix 1 [[''a''], [''b''], [''a'']]) [0] True
       = Inr (Matrix 1 [[0], [1], [0]])
   \<and> one_hot_encode Some (Matrix 3 [[7, 1, 5], [8, 0, 5], [9, 1, 6 :: real]]) [1] False
       = Inr (Matrix 4 [[7, 0, 1, 5], [8, 1, 0, 5], [9, 0, 1, 6]])"
  using one_hot_encode_interleaved_blocks
      [of Some "Matrix 3 [[7, 1, 5], [8, 0, 5], [9, 1, 6]]" "[1]" False]
    one_hot_encode_interleaved_blocks
      [of Map.empty "Matrix 1 [[''a''], [''b''], [''a'']]" "[0]" False]
    one_hot_encode_interleaved_blocks
      [of Map.empty "Matrix 1 [[''a''], [''b''], [''a'']]" "[0]" True]
  by (simp add: castable_def encoded_columns_def encoded_block_np_unique np_unique_def
      column_def nrows_def upt_rec less_Suc_eq numeral_3_eq_3)

text \<open>
  C6. The statement fails on the code at an input for which no output column is
  produced. The single column \<open>a, a\<close> is categorical and has one distinct value; with
  \<open>drop_first\<close> it is replaced by no column, so the result the statement describes is the
  matrix with two rows and no column. The list handed to \<^verbatim>\<open>np.column_stack\<close> is empty and
  the call raises.
\<close>

theorem one_hot_encode_no_output_column:
  "encoded_columns Map.empty (Matrix 1 [[''a''], [''a'']]) [0] True = []
   \<and> encode_columns Map.empty (Matrix 1 [[''a''], [''a'']]) [0] True [0..<1] [] = Inr []
   \<and> one_hot_encode Map.empty (Matrix 1 [[''a''], [''a'']]) [0] True = Inl EmptyStack"
  by (simp add: one_hot_encode_def np_unique_def column_def column_stack_def
      encoded_columns_def encoded_block_np_unique)

section \<open>The normal equation\<close>

lemma column_c_ones_nth: "i < nrows X \<Longrightarrow> column (c_ones X) k ! i = Xb_entry X i k"
  by (simp add: column_def c_ones_def nrows_def Xb_entry_def nth_Cons')

lemma inner_columns_c_ones:
  "inner (column (c_ones X) a) (column (c_ones X) b)
   = (\<Sum>i<nrows X. Xb_entry X i a * Xb_entry X i b)"
  by (subst inner_sum) (simp_all add: column_c_ones_nth)

lemma dot_mm_gram: "dot_mm (np_T (c_ones X)) (c_ones X) = Inr (gram X)"
  by (simp add: dot_mm_def np_T_def gram_def inner_columns_c_ones o_def)

lemma wf_gram: "wf_matrix (gram X) \<and> ncols (gram X) = Suc (ncols X) \<and> nrows (gram X) = Suc (ncols X)"
  by (simp add: wf_matrix_def gram_def nrows_def list_all_iff)

lemma column_np_T_c_ones:
  "i < nrows X \<Longrightarrow> column (np_T (c_ones X)) i = map (Xb_entry X i) [0..<Suc (ncols X)]"
  by (simp add: np_T_def column_Matrix o_def column_c_ones_nth del: upt_Suc)

lemma dot_mm_pinv:
  assumes "wf_matrix P" and "ncols P = Suc (ncols X)"
  shows "dot_mm P (np_T (c_ones X))
         = Inr (Matrix (nrows X)
                 (map (\<lambda>r. map (\<lambda>i. \<Sum>k<Suc (ncols X). r ! k * Xb_entry X i k) [0..<nrows X])
                    (rows P)))"
proof -
  have "inner r (column (np_T (c_ones X)) i) = (\<Sum>k<Suc (ncols X). r ! k * Xb_entry X i k)"
    if "r \<in> set (rows P)" and "i < nrows X" for r i
  proof -
    from that(1) assms have "length r = Suc (ncols X)"
      by (simp add: wf_matrix_def list_all_iff)
    with that(2) show ?thesis
      by (subst inner_sum) (simp_all add: column_np_T_c_ones del: upt_Suc sum.lessThan_Suc)
  qed
  then have "map (\<lambda>r. map (\<lambda>j. inner r (column (np_T (c_ones X)) j)) [0..<nrows X]) (rows P)
        = map (\<lambda>r. map (\<lambda>i. \<Sum>k<Suc (ncols X). r ! k * Xb_entry X i k) [0..<nrows X]) (rows P)"
    by (intro map_cong refl) simp
  moreover have "nrows (np_T (c_ones X)) = Suc (ncols X)"
    by (simp add: nrows_def np_T_def)
  ultimately show ?thesis
    using assms(2) by (simp add: dot_mm_def)
qed

lemma dot_mv_rows_upt:
  assumes "length y = m"
  shows "dot_mv (Matrix m (map (\<lambda>r. map (f r) [0..<m]) rs)) y
         = Inr (map (\<lambda>r. \<Sum>i<m. f r i * y ! i) rs)"
proof -
  have "inner (map (f r) [0..<m]) y = (\<Sum>i<m. f r i * y ! i)" for r
    using assms by (subst inner_sum) simp_all
  with assms show ?thesis
    by (simp add: dot_mv_def o_def)
qed

lemma fit_multiple_theta:
  assumes "wf_matrix X" and "length y = nrows X" and "pinv_shape pinv"
  shows "\<exists>P. dot_mm (pinv (gram X)) (np_T (c_ones X)) = Inr P
           \<and> dot_mv P y = Inr (normal_equation_theta pinv X y)"
proof -
  from assms(3) wf_gram [of X] have p: "wf_matrix (pinv (gram X))"
    "ncols (pinv (gram X)) = Suc (ncols X)" "nrows (pinv (gram X)) = Suc (ncols X)"
    by (simp_all add: pinv_shape_def)
  let ?f = "\<lambda>r i. \<Sum>k<Suc (ncols X). r ! k * Xb_entry X i k"
  have "map (\<lambda>r. \<Sum>i<nrows X. ?f r i * y ! i) (rows (pinv (gram X)))
        = normal_equation_theta pinv X y"
    using p(3) unfolding normal_equation_theta_def nrows_def
    by (intro nth_equalityI) (simp_all del: upt_Suc sum.lessThan_Suc)
  with dot_mm_pinv [OF p(1,2)] dot_mv_rows_upt [OF assms(2), of ?f "rows (pinv (gram X))"]
  show ?thesis by simp
qed

text \<open>
  C1. For a well-formed matrix \<open>X\<close> and a target \<open>y\<close> with one entry per row,
  \<^verbatim>\<open>fit_multiple\<close> succeeds, whatever the rank of \<open>X\<^sub>b\<^sup>T X\<^sub>b\<close>, and sets the intercept to entry
  0 and the coefficients to the other entries of \<open>theta = pinv (X\<^sub>b\<^sup>T X\<^sub>b) X\<^sub>b\<^sup>T y\<close>, where
  \<open>X\<^sub>b\<close> is \<open>X\<close> with a leading column of ones. The result is a function of \<open>X\<close>, \<open>y\<close> and
  the pseudo-inverse, computed in one pass.
\<close>

theorem fit_multiple_normal_equation:
  assumes "wf_matrix X" and "length y = nrows X" and "pinv_shape pinv"
  shows "fit_multiple pinv est X y
           = (Inr (), est\<lparr>intercept := Some (normal_equation_theta pinv X y ! 0),
                          coefficients := Some (drop 1 (normal_equation_theta pinv X y))\<rparr>)
         \<and> length (normal_equation_theta pinv X y) = Suc (ncols X)"
proof -
  from fit_multiple_theta [OF assms] obtain P where
    P: "dot_mm (pinv (gram X)) (np_T (c_ones X)) = Inr P"
    "dot_mv P y = Inr (normal_equation_theta pinv X y)"
    by blast
  have len: "length (normal_equation_theta pinv X y) = Suc (ncols X)"
    by (simp add: normal_equation_theta_def)
  then obtain t0 ts where t: "normal_equation_theta pinv X y = t0 # ts"
    by (cases "normal_equation_theta pinv X y") auto
  have "fit_multiple pinv est X y
        = (Inr (), est\<lparr>intercept := Some t0, coefficients := Some ts\<rparr>)"
    by (simp add: fit_multiple_def Let_def dot_mm_gram P t)
  with len show ?thesis by (simp add: t)
qed

lemma pinv_2x2_shape: "pinv_shape pinv_2x2"
  unfolding pinv_shape_def
proof (intro allI impI)
  fix A :: "real matrix"
  assume wf: "wf_matrix A"
  have z: "wf_matrix (zeros (ncols A) (nrows A)) \<and> ncols (zeros (ncols A) (nrows A)) = nrows A
      \<and> nrows (zeros (ncols A) (nrows A)) = ncols A"
    by (simp add: zeros_def wf_matrix_def nrows_def list_all_iff)
  show "wf_matrix (pinv_2x2 A) \<and> ncols (pinv_2x2 A) = nrows A \<and> nrows (pinv_2x2 A) = ncols A"
  proof (cases "\<exists>a b c d. rows A = [[a, b], [c, d]]")
    case True
    then obtain a b c d where r: "rows A = [[a, b], [c, d]]" by blast
    with wf have "ncols A = 2" and "nrows A = 2"
      by (simp_all add: wf_matrix_def nrows_def)
    with r show ?thesis
      by (simp add: pinv_2x2_def wf_matrix_def nrows_def zeros_def list_all_iff)
  next
    case False
    then have "pinv_2x2 A = zeros (ncols A) (nrows A)"
      by (auto simp: pinv_2x2_def split: list.splits)
    with z show ?thesis by simp
  qed
qed

theorem fit_multiple_normal_equation_witness:
  "wf_matrix (Matrix 1 [[0], [1], [2 :: real]])
   \<and> length [2, 5, 8 :: real] = nrows (Matrix 1 [[0], [1], [2 :: real]])
   \<and> pinv_shape pinv_2x2
   \<and> gram (Matrix 1 [[0], [1], [2]]) = Matrix 2 [[3, 3], [3, 5]]
   \<and> normal_equation_theta pinv_2x2 (Matrix 1 [[0], [1], [2]]) [2, 5, 8] = [2, 3]
   \<and> fit_multiple pinv_2x2 init (Matrix 1 [[0], [1], [2]]) [2, 5, 8]
       = (Inr (), \<lparr>coefficients = Some [3], intercept = Some 2\<rparr>)"
proof -
  have g: "gram (Matrix 1 [[0], [1], [2]]) = Matrix 2 [[3, 3], [3, 5]]"
    by (simp add: gram_def Xb_entry_def nrows_def lessThan_Suc numeral_3_eq_3 upt_rec)
  have t: "normal_equation_theta pinv_2x2 (Matrix 1 [[0], [1], [2]]) [2, 5, 8] = [2, 3]"
    by (simp add: normal_equation_theta_def gram_def pinv_2x2_def Xb_entry_def nrows_def
        lessThan_Suc numeral_3_eq_3 upt_rec)
  have w: "wf_matrix (Matrix 1 [[0], [1], [2 :: real]])"
    and l: "length [2, 5, 8 :: real] = nrows (Matrix 1 [[0], [1], [2 :: real]])"
    by (simp_all add: wf_matrix_def nrows_def)
  from fit_multiple_normal_equation [OF w l pinv_2x2_shape, of init] g t w l pinv_2x2_shape
  show ?thesis by (simp add: init_def)
qed

end
